theory Spec2Isabelle
  imports Main
begin

section \<open>Python values used by the two scripts\<close>

text \<open>
  A Python \<open>str\<close> is a sequence of Unicode code points; it is modelled as the list of
  their numbers. \<open>lit\<close> turns an ASCII literal of the source into such a list.
  An \<open>int\<close> of Python is unbounded: \<open>int\<close> of HOL.
\<close>

type_synonym codepoint = nat
type_synonym pystr = "codepoint list"

definition lit :: "string \<Rightarrow> pystr" where
  "lit s = map of_char s"

text \<open>
  \<open>str.isspace\<close> of one code point: the characters that \<open>str.strip()\<close> with no argument
  removes (TAB..CR, FS..US, SPACE, NEL, NBSP, and the space separators beyond Latin-1).
\<close>

definition py_isspace :: "codepoint \<Rightarrow> bool" where
  "py_isspace c \<longleftrightarrow>
     (9 \<le> c \<and> c \<le> 13) \<or> (28 \<le> c \<and> c \<le> 32) \<or> c = 133 \<or> c = 160 \<or> c = 5760 \<or>
     (8192 \<le> c \<and> c \<le> 8202) \<or> c = 8232 \<or> c = 8233 \<or> c = 8239 \<or> c = 8287 \<or> c = 12288"

definition lstrip :: "pystr \<Rightarrow> pystr" where
  "lstrip s = dropWhile py_isspace s"

definition rstrip :: "pystr \<Rightarrow> pystr" where
  "rstrip s = rev (dropWhile py_isspace (rev s))"

text \<open>\<open>s.strip()\<close>: leading and trailing whitespace removed.\<close>

definition strip :: "pystr \<Rightarrow> pystr" where
  "strip s = rstrip (lstrip s)"

text \<open>
  \<open>s.split(",")\<close>: the pieces between the separators, one more than there are
  separators, so never an empty list.
\<close>

fun split :: "codepoint \<Rightarrow> pystr \<Rightarrow> pystr list" where
  "split sep [] = [[]]"
| "split sep (c # cs) =
     (if c = sep then [] # split sep cs
      else (case split sep cs of
              [] \<Rightarrow> [[c]]
            | w # ws \<Rightarrow> (c # w) # ws))"

text \<open>\<open>str(n)\<close> of an integer, as an f-string formats it: decimal digits, \<open>-\<close> before a negative one.\<close>

fun digits_of :: "nat \<Rightarrow> pystr" where
  "digits_of n = (if n < 10 then [48 + n] else digits_of (n div 10) @ [48 + n mod 10])"

declare digits_of.simps [simp del]

definition str_int :: "int \<Rightarrow> pystr" where
  "str_int i = (if i < 0 then 45 # digits_of (nat (- i)) else digits_of (nat i))"

subsection \<open>\<open>int(s)\<close> on a string\<close>

text \<open>
  What the interpreter brings and the repository does not: the decimal digits of Unicode
  beyond ASCII, given by the code point of the digit zero of each script (the digits of a
  script are ten consecutive code points), and the limit on the number of digits of
  \<open>int(s)\<close> (\<open>sys.get_int_max_str_digits()\<close>, 0 for no limit).
\<close>

record interp =
  unicode_zeros :: "codepoint list"
  int_max_str_digits :: nat

definition decimal :: "interp \<Rightarrow> codepoint \<Rightarrow> nat option" where
  "decimal ip c =
     (if c < 128 then (if 48 \<le> c \<and> c \<le> 57 then Some (c - 48) else None)
      else if py_isspace c then None
      else (case find (\<lambda>z. z \<le> c \<and> c < z + 10) (unicode_zeros ip) of
              None \<Rightarrow> None
            | Some z \<Rightarrow> Some (c - z)))"

text \<open>
  The digits of the literal, left to right: a single underscore is allowed between two
  digits, none at the start or the end; \<open>us\<close> says that no underscore may come next.
  The result is the value and the number of digits read.
\<close>

fun scan_digits :: "interp \<Rightarrow> pystr \<Rightarrow> bool \<Rightarrow> nat \<Rightarrow> nat \<Rightarrow> (nat \<times> nat) option" where
  "scan_digits ip [] us acc cnt = (if us then None else Some (acc, cnt))"
| "scan_digits ip (c # cs) us acc cnt =
     (if c = 95 then (if us then None else scan_digits ip cs True acc cnt)
      else (case decimal ip c of
              None \<Rightarrow> None
            | Some d \<Rightarrow> scan_digits ip cs False (acc * 10 + d) (Suc cnt)))"

text \<open>
  \<open>int(s)\<close> in base 10 for a string with no surrounding whitespace (the source strips it
  first): an optional sign, then the digits. \<open>None\<close> is \<open>ValueError\<close>.
\<close>

definition py_int :: "interp \<Rightarrow> pystr \<Rightarrow> int option" where
  "py_int ip s =
     (let (neg, body) = (case s of
                           [] \<Rightarrow> (False, [])
                         | c # cs \<Rightarrow> if c = 45 then (True, cs)
                                     else if c = 43 then (False, cs) else (False, s))
      in case scan_digits ip body True 0 0 of
           None \<Rightarrow> None
         | Some (v, cnt) \<Rightarrow>
             if 0 < int_max_str_digits ip \<and> int_max_str_digits ip < cnt then None
             else Some (if neg then - int v else int v))"

section \<open>The PDF library and the file system\<close>

text \<open>
  \<open>pdfplumber\<close> and \<open>os.path\<close> are outside the repository. A page answers
  \<open>extract_text()\<close> and \<open>extract_tables()\<close>, each with a value or an exception
  (\<open>Inl\<close>, carrying \<open>str(e)\<close>); the text may be \<open>None\<close>, and so may the list of
  tables and any cell of a row. An opened document has its pages and the answer of the
  \<open>close()\<close> that leaving the \<open>with\<close> block calls.
\<close>

type_synonym fault = pystr
type_synonym cell = "pystr option"

record page =
  extract_text :: "fault + pystr option"
  extract_tables :: "fault + cell list list list option"

record pdf =
  pages :: "page list"
  close :: "fault option"

text \<open>What a run does to the files, in the order it does it.\<close>

datatype event =
    IsFile pystr
  | GetSize pystr
  | OpenPdf pystr
  | ExtractText int
  | ExtractTables int
  | ClosePdf

text \<open>
  What \<open>json.dumps\<close> is given, and what is found on a stream afterwards: a JSON document,
  a line of plain text, or the beginning of a document whose writing was cut short.
\<close>

datatype json =
    JInt int
  | JStr pystr
  | JArr "json list"
  | JObj "(pystr \<times> json) list"

datatype line = Json json | Plain pystr | Cut json

text \<open>
  \<open>print(json.dumps(doc, ensure_ascii=False))\<close> on standard output can go wrong, and
  both scripts call it inside their \<open>try\<close>. The text is encoded as a whole and handed to
  a buffer, which is written out when it is full and when the interpreter exits. So the
  call either writes the document; or raises (the codec of the stream cannot encode a
  character, the stream is closed, the pipe is broken, the device is full), with nothing
  or only a beginning of the document written by then; or returns and leaves the failure
  to the flush at exit. After an exception of the call, too, the flush at exit may fail
  on what is left in the buffer. \<open>Printed\<close> is the first case; \<open>Raised e a flush\<close> the
  second, with the exception, what had been written by then, and the failure of the
  flush at exit if there is one; \<open>Deferred a f\<close> the third, with what was written and the
  failure of the flush at exit.
\<close>

datatype arrived = Nothing | Part

datatype print_result =
    Printed
  | Raised fault arrived "fault option"
  | Deferred arrived fault

record world =
  py :: interp
  pdf_open :: "pystr \<Rightarrow> fault + pdf"
  isfile :: "pystr \<Rightarrow> bool"
  getsize :: "pystr \<Rightarrow> fault + nat"
  stdout_print :: "json \<Rightarrow> print_result"

record run =
  stdout :: "line list"
  stderr :: "line list"
  exit_code :: int
  trace :: "event list"

text \<open>
  \<open>with pdfplumber.open(path) as pdf: body\<close>. The document is closed when the block is
  left, by its end or by an exception; an exception of \<open>close()\<close> replaces the outcome
  of the block.
\<close>

definition with_pdf ::
  "world \<Rightarrow> pystr \<Rightarrow> (pdf \<Rightarrow> event list \<times> (fault + 'a)) \<Rightarrow> event list \<times> (fault + 'a)" where
  "with_pdf w path body =
     (case pdf_open w path of
        Inl e \<Rightarrow> ([OpenPdf path], Inl e)
      | Inr doc \<Rightarrow>
          (case body doc of
             (ev, r) \<Rightarrow>
               (OpenPdf path # ev @ [ClosePdf],
                case close doc of None \<Rightarrow> r | Some e \<Rightarrow> Inl e)))"

text \<open>
  A flush of standard output that fails when the interpreter exits: the interpreter
  reports it on the error stream and the exit status becomes 120, whatever it was.
\<close>

definition at_exit :: "fault option \<Rightarrow> run \<Rightarrow> run" where
  "at_exit flush r =
     (case flush of
        None \<Rightarrow> r
      | Some f \<Rightarrow> r\<lparr>stderr := stderr r @ [Plain f], exit_code := 120\<rparr>)"

definition written :: "arrived \<Rightarrow> json \<Rightarrow> line list" where
  "written a doc = (case a of Nothing \<Rightarrow> [] | Part \<Rightarrow> [Cut doc])"

text \<open>
  The end of the \<open>try\<close> block of either script: \<open>print(json.dumps(doc, ...))\<close>, and the
  \<open>except Exception as e\<close> that an exception of it reaches, which prints \<open>report e\<close> on
  the error stream and calls \<open>sys.exit(1)\<close>. \<open>ev\<close> is the trace up to there.
\<close>

definition print_or_fail :: "world \<Rightarrow> json \<Rightarrow> (fault \<Rightarrow> line) \<Rightarrow> event list \<Rightarrow> run" where
  "print_or_fail w doc report ev =
     (case stdout_print w doc of
        Printed \<Rightarrow> \<lparr>stdout = [Json doc], stderr = [], exit_code = 0, trace = ev\<rparr>
      | Raised e a flush \<Rightarrow>
          at_exit flush
            \<lparr>stdout = written a doc, stderr = [report e], exit_code = 1, trace = ev\<rparr>
      | Deferred a f \<Rightarrow>
          at_exit (Some f) \<lparr>stdout = written a doc, stderr = [], exit_code = 0, trace = ev\<rparr>)"

section \<open>extract\_pages.py\<close>

record page_result =
  pageNum :: int
  page_text :: pystr
  tables :: "pystr list list list"

text \<open>\<open>x or ""\<close> on an optional string: \<open>None\<close> and the empty string are both falsy.\<close>

definition or_empty :: "pystr option \<Rightarrow> pystr" where
  "or_empty x = (case x of None \<Rightarrow> [] | Some s \<Rightarrow> if s = [] then [] else s)"

text \<open>\<open>(cell or "").strip()\<close>\<close>

definition normalize_cell :: "cell \<Rightarrow> pystr" where
  "normalize_cell c = strip (or_empty c)"

text \<open>
  The two \<open>for\<close> loops of \<open>extract_page\<close>, each appending to its list; the row is a
  list comprehension.
\<close>

definition normalize_table :: "cell list list \<Rightarrow> pystr list list" where
  "normalize_table table =
     foldl (\<lambda>normalized row. normalized @ [map normalize_cell row]) [] table"

definition normalize_tables :: "cell list list list \<Rightarrow> pystr list list list" where
  "normalize_tables raw_tables =
     foldl (\<lambda>tbls table. tbls @ [normalize_table table]) [] raw_tables"

definition extract_page :: "page \<Rightarrow> int \<Rightarrow> event list \<times> (fault + page_result)" where
  "extract_page pg page_num =
     (case extract_text pg of
        Inl e \<Rightarrow> ([ExtractText page_num], Inl e)
      | Inr t \<Rightarrow>
          (case extract_tables pg of
             Inl e \<Rightarrow> ([ExtractText page_num, ExtractTables page_num], Inl e)
           | Inr r \<Rightarrow>
               ([ExtractText page_num, ExtractTables page_num],
                Inr \<lparr>pageNum = page_num,
                     page_text = or_empty t,
                     tables = normalize_tables (case r of None \<Rightarrow> [] | Some ts \<Rightarrow> ts)\<rparr>)))"

text \<open>The placeholder of a page that the document does not have.\<close>

definition out_of_range :: "int \<Rightarrow> int \<Rightarrow> page_result" where
  "out_of_range page_num total_pages =
     \<lparr>pageNum = page_num,
      page_text = lit ''[Page '' @ str_int page_num @ lit '' out of range '' @ [8212] @
                  lit '' PDF has '' @ str_int total_pages @ lit '' pages]'',
      tables = []\<rparr>"

text \<open>
  \<open>for page_num in requested_pages\<close>, with \<open>results\<close> as the list built so far. An
  exception of a page ends the loop; the results so far are dropped with it.
\<close>

fun extract_loop ::
  "pdf \<Rightarrow> int \<Rightarrow> int list \<Rightarrow> page_result list \<Rightarrow> event list \<times> (fault + page_result list)" where
  "extract_loop doc total_pages [] results = ([], Inr results)"
| "extract_loop doc total_pages (page_num # rest) results =
     (if page_num < 0 \<or> page_num \<ge> total_pages
      then extract_loop doc total_pages rest (results @ [out_of_range page_num total_pages])
      else (case extract_page (pages doc ! nat page_num) page_num of
              (ev, Inl e) \<Rightarrow> (ev, Inl e)
            | (ev, Inr r) \<Rightarrow>
                (case extract_loop doc total_pages rest (results @ [r]) of
                   (ev', out) \<Rightarrow> (ev @ ev', out))))"

text \<open>
  \<open>[int(p.strip()) for p in page_numbers_str.split(",")]\<close>: the first entry that is no
  integer raises \<open>ValueError\<close> for the whole list.
\<close>

fun parse_entries :: "interp \<Rightarrow> pystr list \<Rightarrow> int list option" where
  "parse_entries ip [] = Some []"
| "parse_entries ip (p # ps) =
     (case py_int ip (strip p) of
        None \<Rightarrow> None
      | Some n \<Rightarrow> (case parse_entries ip ps of None \<Rightarrow> None | Some ns \<Rightarrow> Some (n # ns)))"

definition parse_pages :: "interp \<Rightarrow> pystr \<Rightarrow> int list option" where
  "parse_pages ip page_numbers_str = parse_entries ip (split 44 page_numbers_str)"

definition error_json :: "pystr \<Rightarrow> json" where
  "error_json msg = JObj [(lit ''error'', JStr msg)]"

definition page_json :: "page_result \<Rightarrow> json" where
  "page_json r =
     JObj [(lit ''pageNum'', JInt (pageNum r)),
           (lit ''text'', JStr (page_text r)),
           (lit ''tables'', JArr (map (\<lambda>t. JArr (map (\<lambda>row. JArr (map JStr row)) t)) (tables r)))]"

definition pages_json :: "page_result list \<Rightarrow> json" where
  "pages_json results = JObj [(lit ''pages'', JArr (map page_json results))]"

text \<open>\<open>sys.argv\<close> is the name of the script followed by the operands.\<close>

definition extract_pages_main :: "world \<Rightarrow> pystr \<Rightarrow> pystr list \<Rightarrow> run" where
  "extract_pages_main w prog operands =
     (let argv = prog # operands in
      if length argv < 3
      then \<lparr>stdout = [],
            stderr = [Json (error_json (lit ''Usage: extract_pages.py <pdf_path> <page_numbers>''))],
            exit_code = 1, trace = []\<rparr>
      else
        (let pdf_path = argv ! 1; page_numbers_str = argv ! 2 in
         case parse_pages (py w) page_numbers_str of
           None \<Rightarrow>
             \<lparr>stdout = [],
              stderr = [Json (error_json (lit ''Invalid page numbers: '' @ page_numbers_str))],
              exit_code = 1, trace = []\<rparr>
         | Some requested_pages \<Rightarrow>
             (case with_pdf w pdf_path
                     (\<lambda>doc. extract_loop doc (int (length (pages doc))) requested_pages []) of
                (ev, Inr results) \<Rightarrow>
                  print_or_fail w (pages_json results) (\<lambda>e. Json (error_json e)) ev
              | (ev, Inl e) \<Rightarrow>
                  \<lparr>stdout = [], stderr = [Json (error_json e)], exit_code = 1, trace = ev\<rparr>)))"

section \<open>get\_metadata.py\<close>

record metadata =
  pageCount :: nat
  fileSize :: nat
  firstPageText :: pystr

definition metadata_json :: "metadata \<Rightarrow> json" where
  "metadata_json m =
     JObj [(lit ''pageCount'', JInt (int (pageCount m))),
           (lit ''fileSize'', JInt (int (fileSize m))),
           (lit ''firstPageText'', JStr (firstPageText m))]"

definition get_metadata :: "world \<Rightarrow> pystr \<Rightarrow> event list \<times> (fault + metadata)" where
  "get_metadata w pdf_path =
     (case getsize w pdf_path of
        Inl e \<Rightarrow> ([GetSize pdf_path], Inl e)
      | Inr file_size \<Rightarrow>
          (case with_pdf w pdf_path
                  (\<lambda>doc. let page_count = length (pages doc) in
                     if page_count > 0
                     then (case extract_text (pages doc ! 0) of
                             Inl e \<Rightarrow> ([ExtractText 0], Inl e)
                           | Inr t \<Rightarrow>
                               ([ExtractText 0],
                                Inr (page_count,
                                     (case t of
                                        None \<Rightarrow> []
                                      | Some s \<Rightarrow> if s \<noteq> [] then s else []))))
                     else ([], Inr (page_count, []))) of
             (ev, Inl e) \<Rightarrow> (GetSize pdf_path # ev, Inl e)
           | (ev, Inr (page_count, first_page_text)) \<Rightarrow>
               (GetSize pdf_path # ev,
                Inr \<lparr>pageCount = page_count, fileSize = file_size,
                     firstPageText = first_page_text\<rparr>)))"

definition get_metadata_main :: "world \<Rightarrow> pystr \<Rightarrow> pystr list \<Rightarrow> run" where
  "get_metadata_main w prog operands =
     (let argv = prog # operands in
      if length argv \<noteq> 2
      then \<lparr>stdout = [],
            stderr = [Plain (lit ''Usage: '' @ argv ! 0 @ lit '' <path_to_pdf>'')],
            exit_code = 1, trace = []\<rparr>
      else
        (let pdf_path = argv ! 1 in
         if \<not> isfile w pdf_path
         then \<lparr>stdout = [],
               stderr = [Plain (lit ''Error: file not found: '' @ pdf_path)],
               exit_code = 1, trace = [IsFile pdf_path]\<rparr>
         else
           (case get_metadata w pdf_path of
              (ev, Inr m) \<Rightarrow>
                print_or_fail w (metadata_json m)
                  (\<lambda>e. Plain (lit ''Error extracting metadata: '' @ e)) (IsFile pdf_path # ev)
            | (ev, Inl e) \<Rightarrow>
                \<lparr>stdout = [], stderr = [Plain (lit ''Error extracting metadata: '' @ e)],
                 exit_code = 1, trace = IsFile pdf_path # ev\<rparr>)))"

section \<open>Auxiliary notions and sample worlds\<close>

text \<open>A page whose two extractions both return, whatever they return.\<close>

definition faultless :: "page \<Rightarrow> bool" where
  "faultless pg \<longleftrightarrow> isl (extract_text pg) = False \<and> isl (extract_tables pg) = False"

text \<open>A string with no whitespace at either end, as \<open>strip\<close> leaves it.\<close>

definition trimmed :: "pystr \<Rightarrow> bool" where
  "trimmed s \<longleftrightarrow> s = [] \<or> (\<not> py_isspace (hd s) \<and> \<not> py_isspace (last s))"

text \<open>
  A world to run the scripts in: \<open>a.pdf\<close> has three pages, each with one table of two
  rows; the second page of \<open>bad.pdf\<close> raises on its tables; \<open>empty.pdf\<close> has no page;
  nothing else exists. Standard output takes every document.
\<close>

definition sample_page :: "pystr \<Rightarrow> page" where
  "sample_page t =
     \<lparr>extract_text = Inr (Some t),
      extract_tables = Inr (Some [[[Some (lit '' a ''), None], [Some [], Some (lit ''b'')]]])\<rparr>"

definition broken_page :: page where
  "broken_page = \<lparr>extract_text = Inr None, extract_tables = Inl (lit ''bad table'')\<rparr>"

definition sample_pdf :: pdf where
  "sample_pdf =
     \<lparr>pages = [sample_page (lit ''one''), sample_page [], sample_page (lit ''three'')],
      close = None\<rparr>"

definition bad_pdf :: pdf where
  "bad_pdf = \<lparr>pages = [sample_page (lit ''one''), broken_page], close = None\<rparr>"

definition empty_pdf :: pdf where
  "empty_pdf = \<lparr>pages = [], close = None\<rparr>"

definition sample_world :: world where
  "sample_world =
     \<lparr>py = \<lparr>unicode_zeros = [1632], int_max_str_digits = 4300\<rparr>,
      pdf_open = (\<lambda>p.
        if p = lit ''a.pdf'' then Inr sample_pdf
        else if p = lit ''bad.pdf'' then Inr bad_pdf
        else if p = lit ''empty.pdf'' then Inr empty_pdf
        else Inl (lit ''No such file'')),
      isfile = (\<lambda>p. p = lit ''a.pdf'' \<or> p = lit ''bad.pdf'' \<or> p = lit ''empty.pdf''),
      getsize = (\<lambda>p.
        if p = lit ''a.pdf'' then Inr 1234
        else if p = lit ''bad.pdf'' then Inr 99
        else if p = lit ''empty.pdf'' then Inr 7
        else Inl (lit ''No such file'')),
      stdout_print = (\<lambda>doc. Printed)\<rparr>"

text \<open>
  The same world with a standard output whose codec is ASCII. \<open>ensure_ascii=False\<close>
  leaves the characters of the strings as they are, so a document with a code point
  above 127 in one of its strings is refused (\<open>UnicodeEncodeError\<close>) before anything is
  written.
\<close>

fun json_ascii :: "json \<Rightarrow> bool" where
  "json_ascii (JInt i) = True"
| "json_ascii (JStr s) = list_all (\<lambda>c. c < 128) s"
| "json_ascii (JArr js) = list_all json_ascii js"
| "json_ascii (JObj kvs) = list_all (\<lambda>kv. list_all (\<lambda>c. c < 128) (fst kv) \<and> json_ascii (snd kv)) kvs"

definition ascii_world :: world where
  "ascii_world =
     sample_world\<lparr>stdout_print := (\<lambda>doc.
       if json_ascii doc then Printed
       else Raised (lit ''ascii codec cannot encode character'') Nothing None)\<rparr>"


section \<open>Strings: stripping and splitting\<close>

lemma foldl_snoc_map: "foldl (\<lambda>acc x. acc @ [f x]) a xs = a @ map f xs"
  by (induction xs arbitrary: a) auto

lemma normalize_table_map: "normalize_table t = map (map normalize_cell) t"
  by (simp add: normalize_table_def foldl_snoc_map)

lemma normalize_tables_map: "normalize_tables ts = map (map (map normalize_cell)) ts"
  by (simp add: normalize_tables_def foldl_snoc_map normalize_table_map)

lemma lstrip_decomp: "s = takeWhile py_isspace s @ lstrip s"
  by (simp add: lstrip_def)

lemma rstrip_decomp: "s = rstrip s @ rev (takeWhile py_isspace (rev s))"
proof -
  have "rev (rev s) = rev (takeWhile py_isspace (rev s) @ dropWhile py_isspace (rev s))"
    by (simp only: takeWhile_dropWhile_id)
  then show ?thesis
    by (simp only: rev_rev_ident rev_append rstrip_def)
qed

lemma lstrip_hd: "lstrip s \<noteq> [] \<Longrightarrow> \<not> py_isspace (hd (lstrip s))"
  unfolding lstrip_def by (rule hd_dropWhile)

lemma rstrip_last: "rstrip s \<noteq> [] \<Longrightarrow> \<not> py_isspace (last (rstrip s))"
  unfolding rstrip_def by (simp add: last_rev hd_dropWhile)

lemma rstrip_hd: "rstrip s \<noteq> [] \<Longrightarrow> hd (rstrip s) = hd s"
proof -
  assume a: "rstrip s \<noteq> []"
  have "hd s = hd (rstrip s @ rev (takeWhile py_isspace (rev s)))"
    using rstrip_decomp [of s] by simp
  with a show ?thesis by simp
qed

lemma lstrip_id: "s = [] \<or> \<not> py_isspace (hd s) \<Longrightarrow> lstrip s = s"
  by (cases s) (auto simp: lstrip_def)

lemma rstrip_id: "s = [] \<or> \<not> py_isspace (last s) \<Longrightarrow> rstrip s = s"
  by (cases "rev s") (auto simp: rstrip_def last_rev hd_rev)

lemma strip_hd: "strip s \<noteq> [] \<Longrightarrow> \<not> py_isspace (hd (strip s))"
  unfolding strip_def using rstrip_hd [of "lstrip s"] lstrip_hd [of s]
  by (metis rstrip_def rev.simps(1) dropWhile.simps(1))

lemma strip_last: "strip s \<noteq> [] \<Longrightarrow> \<not> py_isspace (last (strip s))"
  unfolding strip_def by (rule rstrip_last)

lemma strip_id: "s = [] \<or> (\<not> py_isspace (hd s) \<and> \<not> py_isspace (last s)) \<Longrightarrow> strip s = s"
  unfolding strip_def by (auto simp: lstrip_id rstrip_id)

lemma strip_idem: "strip (strip s) = strip s"
  using strip_hd [of s] strip_last [of s] by (intro strip_id) auto

lemma strip_decomp:
  "s = takeWhile py_isspace s @ strip s @ rev (takeWhile py_isspace (rev (lstrip s)))"
  using lstrip_decomp [of s] rstrip_decomp [of "lstrip s"] by (simp add: strip_def)

lemma strip_all_space: "\<forall>c\<in>set s. py_isspace c \<Longrightarrow> strip s = []"
proof -
  assume "\<forall>c\<in>set s. py_isspace c"
  then have "lstrip s = []"
    by (simp add: lstrip_def dropWhile_eq_Nil_conv)
  then show ?thesis
    by (simp add: strip_def rstrip_def)
qed

lemma split_nonempty: "split sep s \<noteq> []"
  by (induction s) (auto split: list.splits)

lemma py_int_empty: "py_int ip [] = None"
  by (simp add: py_int_def)

section \<open>The loop over the requested pages\<close>

lemma extract_page_faultless:
  assumes "faultless pg"
  shows "\<exists>r. extract_page pg n = ([ExtractText n, ExtractTables n], Inr r) \<and> pageNum r = n"
  using assms by (auto simp: faultless_def extract_page_def split: sum.splits)


text \<open>What the loop appends for one requested index when nothing raises.\<close>

lemma extract_loop_faultless:
  assumes "\<forall>n\<in>set req. 0 \<le> n \<and> n < total_pages \<longrightarrow> faultless (pages doc ! nat n)"
  shows "extract_loop doc total_pages req acc =
           (concat (map (\<lambda>n. if n < 0 \<or> total_pages \<le> n then [] else [ExtractText n, ExtractTables n]) req),
            Inr (acc @ map (\<lambda>n. if n < 0 \<or> total_pages \<le> n then out_of_range n total_pages
                                else projr (snd (extract_page (pages doc ! nat n) n))) req))"
  using assms
proof (induction req arbitrary: acc)
  case Nil
  then show ?case by simp
next
  case (Cons n req)
  show ?case
  proof (cases "n < 0 \<or> total_pages \<le> n")
    case True
    with Cons show ?thesis by auto
  next
    case False
    with Cons.prems have f: "faultless (pages doc ! nat n)" by simp
    from Cons.prems have "\<forall>n\<in>set req. 0 \<le> n \<and> n < total_pages \<longrightarrow> faultless (pages doc ! nat n)"
      by simp
    note ih = Cons.IH [OF this]
    from extract_page_faultless [OF f, of n] obtain r where
      "extract_page (pages doc ! nat n) n = ([ExtractText n, ExtractTables n], Inr r)"
      by blast
    with False show ?thesis
      by (simp add: ih)
  qed
qed


lemma extract_loop_length:
  "extract_loop doc total_pages req acc = (ev, Inr results) \<Longrightarrow> length results = length acc + length req"
proof (induction req arbitrary: acc ev)
  case Nil
  then show ?case by simp
next
  case (Cons n req)
  show ?case
  proof (cases "n < 0 \<or> total_pages \<le> n")
    case True
    with Cons.prems have "extract_loop doc total_pages req (acc @ [out_of_range n total_pages]) = (ev, Inr results)"
      by simp
    from Cons.IH [OF this] show ?thesis by simp
  next
    case False
    with Cons.prems obtain ev1 r ev2 where
      "extract_loop doc total_pages req (acc @ [r]) = (ev2, Inr results)"
      by (auto split: prod.splits sum.splits)
    from Cons.IH [OF this] show ?thesis by simp
  qed
qed

section \<open>Running the scripts\<close>

lemmas run_simps =
  lit_def strip_def lstrip_def rstrip_def py_isspace_def py_int_def decimal_def parse_pages_def

lemma digits_of_small: "n < 10 \<Longrightarrow> digits_of n = [48 + n]"
  by (simp add: digits_of.simps)

subsection \<open>Printing the document\<close>

lemma print_or_fail_Printed:
  "stdout_print w doc = Printed \<Longrightarrow>
     print_or_fail w doc report ev = \<lparr>stdout = [Json doc], stderr = [], exit_code = 0, trace = ev\<rparr>"
  by (simp add: print_or_fail_def)


lemma print_or_fail_exit_0:
  "exit_code (print_or_fail w doc report ev) = 0 \<longleftrightarrow> stdout_print w doc = Printed"
  by (auto simp: print_or_fail_def at_exit_def split: print_result.splits option.splits)

subsection \<open>The two scripts on their documented operands\<close>

lemma main_two_operands:
  "extract_pages_main w prog [pdf_path, page_numbers_str] =
     (case parse_pages (py w) page_numbers_str of
        None \<Rightarrow>
          \<lparr>stdout = [],
           stderr = [Json (error_json (lit ''Invalid page numbers: '' @ page_numbers_str))],
           exit_code = 1, trace = []\<rparr>
      | Some requested_pages \<Rightarrow>
          (case with_pdf w pdf_path
                  (\<lambda>doc. extract_loop doc (int (length (pages doc))) requested_pages []) of
             (ev, Inr results) \<Rightarrow>
               print_or_fail w (pages_json results) (\<lambda>e. Json (error_json e)) ev
           | (ev, Inl e) \<Rightarrow>
               \<lparr>stdout = [], stderr = [Json (error_json e)], exit_code = 1, trace = ev\<rparr>))"
  by (simp add: extract_pages_main_def)

lemma extract_pages_main_extra:
  "extract_pages_main w prog (pdf_path # page_numbers_str # extra) =
   extract_pages_main w prog [pdf_path, page_numbers_str]"
  by (simp add: extract_pages_main_def)

lemma metadata_one_operand:
  "get_metadata_main w prog [pdf_path] =
     (if \<not> isfile w pdf_path
      then \<lparr>stdout = [],
            stderr = [Plain (lit ''Error: file not found: '' @ pdf_path)],
            exit_code = 1, trace = [IsFile pdf_path]\<rparr>
      else
        (case get_metadata w pdf_path of
           (ev, Inr m) \<Rightarrow>
             print_or_fail w (metadata_json m)
               (\<lambda>e. Plain (lit ''Error extracting metadata: '' @ e)) (IsFile pdf_path # ev)
         | (ev, Inl e) \<Rightarrow>
             \<lparr>stdout = [], stderr = [Plain (lit ''Error extracting metadata: '' @ e)],
              exit_code = 1, trace = IsFile pdf_path # ev\<rparr>))"
  by (simp add: get_metadata_main_def)

text \<open>
  The run of the page extraction on a request that parses and a document that opens and
  closes, when no requested page raises: the whole request is extracted, and the
  document of its results is handed to \<open>print\<close>.
\<close>

lemma extract_pages_main_faultless:
  assumes parse: "parse_pages (py w) page_numbers_str = Some req"
    and opened: "pdf_open w pdf_path = Inr doc"
    and closed: "close doc = None"
    and ok: "\<forall>n\<in>set req. 0 \<le> n \<and> n < int (length (pages doc)) \<longrightarrow> faultless (pages doc ! nat n)"
  shows "extract_pages_main w prog [pdf_path, page_numbers_str] =
           print_or_fail w
             (pages_json
                (map (\<lambda>n. if n < 0 \<or> int (length (pages doc)) \<le> n
                           then out_of_range n (int (length (pages doc)))
                           else projr (snd (extract_page (pages doc ! nat n) n))) req))
             (\<lambda>e. Json (error_json e))
             (OpenPdf pdf_path #
              concat (map (\<lambda>n. if n < 0 \<or> int (length (pages doc)) \<le> n then []
                                else [ExtractText n, ExtractTables n]) req) @ [ClosePdf])"
proof -
  from extract_loop_faultless [OF ok, of "[]"]
  have "extract_loop doc (int (length (pages doc))) req [] =
          (concat (map (\<lambda>n. if n < 0 \<or> int (length (pages doc)) \<le> n then []
                            else [ExtractText n, ExtractTables n]) req),
           Inr (map (\<lambda>n. if n < 0 \<or> int (length (pages doc)) \<le> n
                          then out_of_range n (int (length (pages doc)))
                          else projr (snd (extract_page (pages doc ! nat n) n))) req))"
    by simp
  then show ?thesis
    by (simp add: main_two_operands parse with_pdf_def opened closed)
qed





subsection \<open>The sample worlds\<close>

lemma sample_world_print: "stdout_print sample_world d = Printed"
  by (simp add: sample_world_def)

lemma ascii_world_simps:
  "py ascii_world = py sample_world"
  "pdf_open ascii_world = pdf_open sample_world"
  "stdout_print ascii_world d =
     (if json_ascii d then Printed
      else Raised (lit ''ascii codec cannot encode character'') Nothing None)"
  by (simp_all add: ascii_world_def)


subsection \<open>Cells, page lists and metadata\<close>

lemma normalize_cell_None: "normalize_cell None = []"
  by (simp add: normalize_cell_def or_empty_def strip_def lstrip_def rstrip_def)

lemma normalize_cell_Some: "normalize_cell (Some s) = strip s"
  by (simp add: normalize_cell_def or_empty_def)

lemma strip_trimmed: "trimmed (strip s)"
  using strip_hd [of s] strip_last [of s] by (auto simp: trimmed_def)

lemma strip_surroundings:
  "\<exists>l t. s = l @ strip s @ t \<and> (\<forall>c\<in>set l. py_isspace c) \<and> (\<forall>c\<in>set t. py_isspace c)"
proof (intro exI conjI)
  show "s = takeWhile py_isspace s @ strip s @ rev (takeWhile py_isspace (rev (lstrip s)))"
    by (rule strip_decomp)
  show "\<forall>c\<in>set (takeWhile py_isspace s). py_isspace c"
    by (auto dest: set_takeWhileD)
  show "\<forall>c\<in>set (rev (takeWhile py_isspace (rev (lstrip s)))). py_isspace c"
    by (auto dest: set_takeWhileD)
qed

lemma extract_page_tables:
  assumes "extract_page pg page_num = (ev, Inr r)"
    and "extract_tables pg = Inr raw_opt"
  shows "tables r = map (map (map normalize_cell)) (case raw_opt of None \<Rightarrow> [] | Some ts \<Rightarrow> ts)"
  using assms
  by (auto simp: extract_page_def normalize_tables_map split: sum.splits)

lemma strip_Nil: "strip [] = []"
  by (simp add: strip_def lstrip_def rstrip_def)

lemma normalize_cell_idem: "normalize_cell (Some (normalize_cell c)) = normalize_cell c"
  by (cases c) (simp_all add: normalize_cell_None normalize_cell_Some strip_idem strip_Nil)

lemma normalize_cell_trimmed: "trimmed s \<Longrightarrow> normalize_cell (Some s) = s"
  unfolding trimmed_def normalize_cell_Some by (rule strip_id)

lemma parse_entries_None_iff:
  "parse_entries ip ps = None \<longleftrightarrow> (\<exists>p\<in>set ps. py_int ip (strip p) = None)"
  by (induction ps) (auto split: option.splits)

lemma parse_entries_None:
  "\<exists>p\<in>set ps. py_int ip (strip p) = None \<Longrightarrow> parse_entries ip ps = None"
  by (simp add: parse_entries_None_iff)

lemma parse_entries_Some:
  "parse_entries ip ps = Some ns \<Longrightarrow>
     length ns = length ps \<and> (\<forall>k<length ps. py_int ip (strip (ps ! k)) = Some (ns ! k))"
proof (induction ps arbitrary: ns)
  case Nil
  then show ?case by simp
next
  case (Cons p ps)
  then obtain n ms where n: "py_int ip (strip p) = Some n"
    and ms: "parse_entries ip ps = Some ms" and ns: "ns = n # ms"
    by (auto split: option.splits)
  from Cons.IH [OF ms] n ns show ?case
    by (auto simp: nth_Cons split: nat.splits)
qed

lemma get_metadata_Inr:
  assumes "get_metadata w pdf_path = (ev, Inr m)"
  shows "\<exists>n doc. getsize w pdf_path = Inr n \<and> pdf_open w pdf_path = Inr doc \<and>
           pageCount m = length (pages doc) \<and> fileSize m = n \<and>
           (pages doc = [] \<longrightarrow> firstPageText m = []) \<and>
           (pages doc \<noteq> [] \<longrightarrow>
              (\<exists>t. extract_text (pages doc ! 0) = Inr t \<and>
                   firstPageText m = (case t of None \<Rightarrow> [] | Some s \<Rightarrow> s)))"
  using assms
  by (auto simp: get_metadata_def with_pdf_def Let_def
      split: sum.splits prod.splits option.splits if_splits)

lemma parse_pages_nonempty: "parse_pages ip s = Some req \<Longrightarrow> req \<noteq> []"
  using parse_entries_Some [of ip "split 44 s" req] split_nonempty [of 44 s]
  by (auto simp: parse_pages_def)

lemma py_int_all_space: "\<forall>c\<in>set p. py_isspace c \<Longrightarrow> py_int ip (strip p) = None"
  by (simp add: strip_all_space py_int_empty)

lemma with_pdf_loop_length:
  assumes "with_pdf w path (\<lambda>doc. extract_loop doc (int (length (pages doc))) req []) =
             (ev, Inr results)"
  shows "length results = length req"
proof -
  from assms obtain doc ev' r where
    "extract_loop doc (int (length (pages doc))) req [] = (ev', r)"
    and "(case close doc of None \<Rightarrow> r | Some e \<Rightarrow> Inl e) = Inr results"
    by (auto simp: with_pdf_def split: sum.splits prod.splits)
  then have "extract_loop doc (int (length (pages doc))) req [] = (ev', Inr results)"
    by (auto split: option.splits)
  from extract_loop_length [OF this] show ?thesis
    by simp
qed

section \<open>The claims\<close>

text \<open>
  C1. When every entry of the page list parses as an integer and every index lies in
  \<open>[0, pageCount)\<close>, the page extraction tool produces one result per requested index, in
  the order of the request: the k-th result is what \<open>extract_page\<close> returns for the k-th
  index, and carries it as \<open>pageNum\<close>. An index that is repeated is extracted again at each
  occurrence, as the trace of the run shows. The document that the tool prints is the
  object whose \<open>pages\<close> array holds these results, each with its \<open>pageNum\<close>, \<open>text\<close> and
  \<open>tables\<close>: it is on standard output, with exit code 0, when standard output takes it,
  and whenever the run exits with code 0. Here the document opens and closes and the
  requested pages extract without an exception (any exception fails the whole request).
\<close>

theorem C1_one_result_per_requested_index:
  assumes parse: "parse_pages (py w) page_numbers_str = Some req"
    and opened: "pdf_open w pdf_path = Inr doc"
    and closed: "close doc = None"
    and inside: "\<forall>n\<in>set req. 0 \<le> n \<and> n < int (length (pages doc))"
    and ok: "\<forall>n\<in>set req. faultless (pages doc ! nat n)"
  shows "\<exists>results.
           length results = length req \<and>
           (\<forall>k<length req.
              pageNum (results ! k) = req ! k \<and>
              extract_page (pages doc ! nat (req ! k)) (req ! k) =
                ([ExtractText (req ! k), ExtractTables (req ! k)], Inr (results ! k))) \<and>
           trace (extract_pages_main w prog [pdf_path, page_numbers_str]) =
             OpenPdf pdf_path #
             concat (map (\<lambda>n. [ExtractText n, ExtractTables n]) req) @ [ClosePdf] \<and>
           (let printed =
               JObj [(lit ''pages'',
                      JArr (map (\<lambda>r. JObj [(lit ''pageNum'', JInt (pageNum r)),
                                              (lit ''text'', JStr (page_text r)),
                                              (lit ''tables'',
                                               JArr (map (\<lambda>t. JArr (map (\<lambda>row. JArr (map JStr row)) t))
                                                      (tables r)))])
                              results))]
            in (stdout_print w printed = Printed \<longrightarrow>
                  stdout (extract_pages_main w prog [pdf_path, page_numbers_str]) = [Json printed] \<and>
                  stderr (extract_pages_main w prog [pdf_path, page_numbers_str]) = [] \<and>
                  exit_code (extract_pages_main w prog [pdf_path, page_numbers_str]) = 0) \<and>
               (exit_code (extract_pages_main w prog [pdf_path, page_numbers_str]) = 0 \<longrightarrow>
                  stdout (extract_pages_main w prog [pdf_path, page_numbers_str]) = [Json printed]))"
proof -
  let ?tp = "int (length (pages doc))"
  let ?res = "map (\<lambda>n. projr (snd (extract_page (pages doc ! nat n) n))) req"
  let ?ev = "OpenPdf pdf_path # concat (map (\<lambda>n. [ExtractText n, ExtractTables n]) req) @ [ClosePdf]"
  let ?run = "extract_pages_main w prog [pdf_path, page_numbers_str]"
  from ok have ok': "\<forall>n\<in>set req. 0 \<le> n \<and> n < ?tp \<longrightarrow> faultless (pages doc ! nat n)"
    by simp
  from inside
  have ev: "map (\<lambda>n. if n < 0 \<or> ?tp \<le> n then [] else [ExtractText n, ExtractTables n]) req =
        map (\<lambda>n. [ExtractText n, ExtractTables n]) req"
    by (intro map_cong) auto
  from inside
  have res: "map (\<lambda>n. if n < 0 \<or> ?tp \<le> n then out_of_range n ?tp
                   else projr (snd (extract_page (pages doc ! nat n) n))) req = ?res"
    by (intro map_cong) auto
  have run: "?run = print_or_fail w (pages_json ?res) (\<lambda>e. Json (error_json e)) ?ev"
    using extract_pages_main_faultless [OF parse opened closed ok', of prog]
    by (simp only: ev res)
  have each: "pageNum (?res ! k) = req ! k \<and>
      extract_page (pages doc ! nat (req ! k)) (req ! k) =
        ([ExtractText (req ! k), ExtractTables (req ! k)], Inr (?res ! k))" if "k < length req" for k
  proof -
    from that ok have "faultless (pages doc ! nat (req ! k))" by simp
    from extract_page_faultless [OF this, of "req ! k"] that show ?thesis
      by auto
  qed
  have tr: "trace ?run = ?ev"
    unfolding run
    by (simp add: print_or_fail_def at_exit_def split: print_result.splits option.splits)
  have pr: "stdout ?run = [Json (pages_json ?res)] \<and> stderr ?run = [] \<and> exit_code ?run = 0"
    if "stdout_print w (pages_json ?res) = Printed"
    unfolding run by (simp add: print_or_fail_Printed [OF that])
  have ex: "stdout ?run = [Json (pages_json ?res)]" if "exit_code ?run = 0"
  proof -
    from that have "stdout_print w (pages_json ?res) = Printed"
      unfolding run by (simp only: print_or_fail_exit_0)
    from pr [OF this] show ?thesis
      by simp
  qed
  have doc: "pages_json ?res =
      JObj [(lit ''pages'',
             JArr (map (\<lambda>r. JObj [(lit ''pageNum'', JInt (pageNum r)),
                                     (lit ''text'', JStr (page_text r)),
                                     (lit ''tables'',
                                      JArr (map (\<lambda>t. JArr (map (\<lambda>row. JArr (map JStr row)) t))
                                             (tables r)))])
                     ?res))]"
    by (simp add: pages_json_def page_json_def comp_def)
  show ?thesis
    apply (rule exI [of _ ?res])
    apply (simp only: Let_def doc [symmetric])
    using each tr pr ex by simp
qed

theorem C1_witness:
  "parse_pages (py sample_world) (lit ''0,2,0'') = Some [0, 2, 0] \<and>
   pdf_open sample_world (lit ''a.pdf'') = Inr sample_pdf \<and>
   trace (extract_pages_main sample_world (lit ''extract_pages.py'') [lit ''a.pdf'', lit ''0,2,0'']) =
     [OpenPdf (lit ''a.pdf''), ExtractText 0, ExtractTables 0, ExtractText 2,
      ExtractTables 2, ExtractText 0, ExtractTables 0, ClosePdf] \<and>
   exit_code (extract_pages_main sample_world (lit ''extract_pages.py'') [lit ''a.pdf'', lit ''0,2,0'']) = 0 \<and>
   (\<exists>results :: page_result list.
      length results = 3 \<and>
      pageNum (results ! 0) = 0 \<and> pageNum (results ! 1) = 2 \<and> pageNum (results ! 2) = 0 \<and>
      stdout (extract_pages_main sample_world (lit ''extract_pages.py'') [lit ''a.pdf'', lit ''0,2,0'']) =
        [Json (JObj [(lit ''pages'',
                      JArr (map (\<lambda>r. JObj [(lit ''pageNum'', JInt (pageNum r)),
                                              (lit ''text'', JStr (page_text r)),
                                              (lit ''tables'',
                                               JArr (map (\<lambda>t. JArr (map (\<lambda>row. JArr (map JStr row)) t))
                                                      (tables r)))])
                              results))])])"
proof -
  let ?run = "extract_pages_main sample_world (lit ''extract_pages.py'') [lit ''a.pdf'', lit ''0,2,0'']"
  have h1: "parse_pages (py sample_world) (lit ''0,2,0'') = Some [0, 2, 0]"
    by (simp add: run_simps sample_world_def)
  have h2: "pdf_open sample_world (lit ''a.pdf'') = Inr sample_pdf"
    by (simp add: sample_world_def)
  have h3: "close sample_pdf = None"
    by (simp add: sample_pdf_def)
  have h4: "\<forall>n\<in>set [0, 2, 0]. 0 \<le> n \<and> n < int (length (pages sample_pdf))"
    by (simp add: sample_pdf_def)
  have h5: "\<forall>n\<in>set [0, 2, 0]. faultless (pages sample_pdf ! nat n)"
    by (simp add: sample_pdf_def sample_page_def faultless_def)
  have pr: "stdout_print sample_world d = Printed" for d
    by (simp add: sample_world_def)
  from C1_one_result_per_requested_index [OF h1 h2 h3 h4 h5, of "lit ''extract_pages.py''"]
  obtain results where
    len: "length results = length [0, 2, 0 :: int]"
    and each: "\<forall>k<length [0, 2, 0 :: int]. pageNum (results ! k) = [0, 2, 0] ! k \<and>
              extract_page (pages sample_pdf ! nat ([0, 2, 0] ! k)) ([0, 2, 0] ! k) =
                ([ExtractText ([0, 2, 0] ! k), ExtractTables ([0, 2, 0] ! k)], Inr (results ! k))"
    and tr: "trace ?run =
             OpenPdf (lit ''a.pdf'') #
             concat (map (\<lambda>n. [ExtractText n, ExtractTables n]) [0, 2, 0]) @ [ClosePdf]"
    and out: "stdout ?run =
        [Json (JObj [(lit ''pages'',
                      JArr (map (\<lambda>r. JObj [(lit ''pageNum'', JInt (pageNum r)),
                                              (lit ''text'', JStr (page_text r)),
                                              (lit ''tables'',
                                               JArr (map (\<lambda>t. JArr (map (\<lambda>row. JArr (map JStr row)) t))
                                                      (tables r)))])
                              results))])]"
    and ex: "exit_code ?run = 0"
    by (auto simp: Let_def pr)
  from each [rule_format, of 0] have p0: "pageNum (results ! 0) = 0" by simp
  from each [rule_format, of 1] have p1: "pageNum (results ! 1) = 2" by simp
  from each [rule_format, of 2] have p2: "pageNum (results ! 2) = 0" by simp
  from len have len3: "length results = 3" by simp
  from tr have tr': "trace ?run =
     [OpenPdf (lit ''a.pdf''), ExtractText 0, ExtractTables 0, ExtractText 2,
      ExtractTables 2, ExtractText 0, ExtractTables 0, ClosePdf]"
    by simp
  from len3 p0 p1 p2 out
  have "\<exists>results :: page_result list.
      length results = 3 \<and>
      pageNum (results ! 0) = 0 \<and> pageNum (results ! 1) = 2 \<and> pageNum (results ! 2) = 0 \<and>
      stdout ?run =
        [Json (JObj [(lit ''pages'',
                      JArr (map (\<lambda>r. JObj [(lit ''pageNum'', JInt (pageNum r)),
                                              (lit ''text'', JStr (page_text r)),
                                              (lit ''tables'',
                                               JArr (map (\<lambda>t. JArr (map (\<lambda>row. JArr (map JStr row)) t))
                                                      (tables r)))])
                              results))])]"
    by (intro exI [of _ results]) simp
  with h1 h2 tr' ex show ?thesis
    by blast
qed

text \<open>
  C2, as amended. A requested index below 0 or not below the page count raises nothing:
  when the document opens and closes and the requested pages that exist extract without
  an exception, the element of the \<open>pages\<close> array at the place of every such index is the
  placeholder, whose \<open>pageNum\<close> is the index, whose \<open>text\<close> is
  \<open>[Page i out of range - PDF has n pages]\<close> (with an em dash) for the index \<open>i\<close> and the
  page count \<open>n\<close> of the document, each in decimal, and whose \<open>tables\<close> is the empty
  array. The run prints this document and exits 0 when standard output takes it, and
  only then.
\<close>

theorem C2_out_of_range_placeholder:
  assumes parse: "parse_pages (py w) page_numbers_str = Some req"
    and opened: "pdf_open w pdf_path = Inr doc"
    and closed: "close doc = None"
    and ok: "\<forall>n\<in>set req. 0 \<le> n \<and> n < int (length (pages doc)) \<longrightarrow> faultless (pages doc ! nat n)"
  shows "\<exists>js.
           length js = length req \<and>
           (\<forall>k<length req.
              req ! k < 0 \<or> int (length (pages doc)) \<le> req ! k \<longrightarrow>
              js ! k =
                JObj [(lit ''pageNum'', JInt (req ! k)),
                      (lit ''text'',
                       JStr (lit ''[Page '' @ str_int (req ! k) @ lit '' out of range '' @ [8212] @
                             lit '' PDF has '' @ str_int (int (length (pages doc))) @
                             lit '' pages]'')),
                      (lit ''tables'', JArr [])]) \<and>
           (stdout_print w (JObj [(lit ''pages'', JArr js)]) = Printed \<longrightarrow>
              stdout (extract_pages_main w prog [pdf_path, page_numbers_str]) =
                [Json (JObj [(lit ''pages'', JArr js)])] \<and>
              stderr (extract_pages_main w prog [pdf_path, page_numbers_str]) = [] \<and>
              exit_code (extract_pages_main w prog [pdf_path, page_numbers_str]) = 0) \<and>
           (exit_code (extract_pages_main w prog [pdf_path, page_numbers_str]) = 0 \<longrightarrow>
              stdout_print w (JObj [(lit ''pages'', JArr js)]) = Printed)"
proof -
  let ?tp = "int (length (pages doc))"
  let ?res = "map (\<lambda>n. if n < 0 \<or> ?tp \<le> n then out_of_range n ?tp
                          else projr (snd (extract_page (pages doc ! nat n) n))) req"
  let ?run = "extract_pages_main w prog [pdf_path, page_numbers_str]"
  define js where "js = map page_json ?res"
  from extract_pages_main_faultless [OF parse opened closed ok, of prog]
  obtain ev where run: "?run = print_or_fail w (JObj [(lit ''pages'', JArr js)])
                                 (\<lambda>e. Json (error_json e)) ev"
    by (simp add: pages_json_def js_def)
  have each: "js ! k =
      JObj [(lit ''pageNum'', JInt (req ! k)),
            (lit ''text'',
             JStr (lit ''[Page '' @ str_int (req ! k) @ lit '' out of range '' @ [8212] @
                   lit '' PDF has '' @ str_int ?tp @ lit '' pages]'')),
            (lit ''tables'', JArr [])]"
    if "k < length req" "req ! k < 0 \<or> ?tp \<le> req ! k" for k
    using that by (auto simp: js_def page_json_def out_of_range_def)
  have pr: "stdout ?run = [Json (JObj [(lit ''pages'', JArr js)])] \<and> stderr ?run = [] \<and>
            exit_code ?run = 0"
    if "stdout_print w (JObj [(lit ''pages'', JArr js)]) = Printed"
    unfolding run by (simp add: print_or_fail_Printed [OF that])
  have ex: "stdout_print w (JObj [(lit ''pages'', JArr js)]) = Printed" if "exit_code ?run = 0"
    using that unfolding run by (simp only: print_or_fail_exit_0)
  have "length js = length req"
    by (simp add: js_def)
  with each pr ex show ?thesis
    by (intro exI [of _ js]) blast
qed

theorem C2_witness:
  "parse_pages (py sample_world) (lit ''0,-1,5'') = Some [0, - 1, 5] \<and>
   pdf_open sample_world (lit ''a.pdf'') = Inr sample_pdf \<and>
   length (pages sample_pdf) = 3 \<and>
   exit_code (extract_pages_main sample_world (lit ''extract_pages.py'') [lit ''a.pdf'', lit ''0,-1,5'']) = 0 \<and>
   stderr (extract_pages_main sample_world (lit ''extract_pages.py'') [lit ''a.pdf'', lit ''0,-1,5'']) = [] \<and>
   (\<exists>js.
      stdout (extract_pages_main sample_world (lit ''extract_pages.py'') [lit ''a.pdf'', lit ''0,-1,5'']) =
        [Json (JObj [(lit ''pages'', JArr js)])] \<and>
      length js = 3 \<and>
      js ! 1 =
        JObj [(lit ''pageNum'', JInt (- 1)),
              (lit ''text'', JStr (lit ''[Page -1 out of range '' @ [8212] @ lit '' PDF has 3 pages]'')),
              (lit ''tables'', JArr [])] \<and>
      js ! 2 =
        JObj [(lit ''pageNum'', JInt 5),
              (lit ''text'', JStr (lit ''[Page 5 out of range '' @ [8212] @ lit '' PDF has 3 pages]'')),
              (lit ''tables'', JArr [])])"
proof -
  let ?run = "extract_pages_main sample_world (lit ''extract_pages.py'') [lit ''a.pdf'', lit ''0,-1,5'']"
  have h1: "parse_pages (py sample_world) (lit ''0,-1,5'') = Some [0, - 1, 5]"
    by (simp add: run_simps sample_world_def)
  have h2: "pdf_open sample_world (lit ''a.pdf'') = Inr sample_pdf"
    by (simp add: sample_world_def)
  have h3: "close sample_pdf = None"
    by (simp add: sample_pdf_def)
  have len: "length (pages sample_pdf) = 3"
    by (simp add: sample_pdf_def)
  have h4: "\<forall>n\<in>set [0, - 1, 5]. 0 \<le> n \<and> n < int (length (pages sample_pdf)) \<longrightarrow>
              faultless (pages sample_pdf ! nat n)"
    by (simp add: sample_pdf_def sample_page_def faultless_def)
  have pr: "stdout_print sample_world d = Printed" for d
    by (simp add: sample_world_def)
  have s1: "str_int (- 1) = lit ''-1''" and s5: "str_int 5 = lit ''5''" and s3: "str_int 3 = lit ''3''"
    by (simp_all add: str_int_def lit_def digits_of_small)
  from C2_out_of_range_placeholder [OF h1 h2 h3 h4, of "lit ''extract_pages.py''"]
  obtain js where
    n: "length js = length [0, - 1, 5 :: int]"
    and each: "\<forall>k<length [0, - 1, 5 :: int].
              [0, - 1, 5 :: int] ! k < 0 \<or> int (length (pages sample_pdf)) \<le> [0, - 1, 5] ! k \<longrightarrow>
              js ! k =
                JObj [(lit ''pageNum'', JInt ([0, - 1, 5] ! k)),
                      (lit ''text'',
                       JStr (lit ''[Page '' @ str_int ([0, - 1, 5] ! k) @ lit '' out of range '' @
                             [8212] @ lit '' PDF has '' @
                             str_int (int (length (pages sample_pdf))) @ lit '' pages]'')),
                      (lit ''tables'', JArr [])]"
    and out: "stdout_print sample_world (JObj [(lit ''pages'', JArr js)]) = Printed \<longrightarrow>
              stdout ?run = [Json (JObj [(lit ''pages'', JArr js)])] \<and> stderr ?run = [] \<and>
              exit_code ?run = 0"
    by (elim exE conjE) (rule that)
  from out pr have o: "stdout ?run = [Json (JObj [(lit ''pages'', JArr js)])]"
    and e: "stderr ?run = []" and x: "exit_code ?run = 0"
    by simp_all
  from each [rule_format, of 1] have r1: "js ! 1 =
        JObj [(lit ''pageNum'', JInt (- 1)),
              (lit ''text'', JStr (lit ''[Page -1 out of range '' @ [8212] @ lit '' PDF has 3 pages]'')),
              (lit ''tables'', JArr [])]"
    by (simp add: len s1 s3) (simp add: lit_def)
  from each [rule_format, of 2] have r2: "js ! 2 =
        JObj [(lit ''pageNum'', JInt 5),
              (lit ''text'', JStr (lit ''[Page 5 out of range '' @ [8212] @ lit '' PDF has 3 pages]'')),
              (lit ''tables'', JArr [])]"
    by (simp add: len s5 s3) (simp add: lit_def)
  from n have "length js = 3"
    by simp
  with o r1 r2 have "\<exists>js.
      stdout ?run = [Json (JObj [(lit ''pages'', JArr js)])] \<and>
      length js = 3 \<and>
      js ! 1 =
        JObj [(lit ''pageNum'', JInt (- 1)),
              (lit ''text'', JStr (lit ''[Page -1 out of range '' @ [8212] @ lit '' PDF has 3 pages]'')),
              (lit ''tables'', JArr [])] \<and>
      js ! 2 =
        JObj [(lit ''pageNum'', JInt 5),
              (lit ''text'', JStr (lit ''[Page 5 out of range '' @ [8212] @ lit '' PDF has 3 pages]'')),
              (lit ''tables'', JArr [])]"
    by (intro exI [of _ js] conjI)
  with h1 h2 len x e show ?thesis
    by (intro conjI)
qed

text \<open>
  C2, as it was stated, fails: the placeholder can itself make the run fail. Its text has
  an em dash, which is printed as it is (\<open>ensure_ascii=False\<close>). On a standard output
  with the ASCII codec the request \<open>0\<close> for \<open>a.pdf\<close> exits 0, and the request \<open>0,5\<close>
  exits 1 with nothing on standard output and the codec's error on the error stream.
\<close>

theorem C2_counterexample:
  "exit_code (extract_pages_main ascii_world (lit ''extract_pages.py'') [lit ''a.pdf'', lit ''0'']) = 0 \<and>
   exit_code (extract_pages_main ascii_world (lit ''extract_pages.py'') [lit ''a.pdf'', lit ''0,5'']) = 1 \<and>
   stdout (extract_pages_main ascii_world (lit ''extract_pages.py'') [lit ''a.pdf'', lit ''0,5'']) = [] \<and>
   stderr (extract_pages_main ascii_world (lit ''extract_pages.py'') [lit ''a.pdf'', lit ''0,5'']) =
     [Json (JObj [(lit ''error'', JStr (lit ''ascii codec cannot encode character''))])]"
proof -
  have p0: "parse_pages (py sample_world) (lit ''0'') = Some [0]"
    and p5: "parse_pages (py sample_world) (lit ''0,5'') = Some [0, 5]"
    by (simp_all add: run_simps sample_world_def)
  have o: "pdf_open sample_world (lit ''a.pdf'') = Inr sample_pdf"
    by (simp add: sample_world_def)
  have pg: "extract_page (sample_page (lit ''one'')) 0 =
      ([ExtractText 0, ExtractTables 0],
       Inr \<lparr>pageNum = 0, page_text = lit ''one'',
            tables = [[[lit ''a'', []], [[], lit ''b'']]]\<rparr>)"
    by (simp add: extract_page_def sample_page_def or_empty_def normalize_tables_map
        normalize_cell_def run_simps)
  have a0: "json_ascii (pages_json [\<lparr>pageNum = 0, page_text = lit ''one'',
            tables = [[[lit ''a'', []], [[], lit ''b'']]]\<rparr>])"
    by (simp add: pages_json_def page_json_def lit_def)
  have a5: "\<not> json_ascii (pages_json [\<lparr>pageNum = 0, page_text = lit ''one'',
            tables = [[[lit ''a'', []], [[], lit ''b'']]]\<rparr>, out_of_range 5 3])"
    by (simp add: pages_json_def page_json_def out_of_range_def lit_def)
  have r0: "exit_code (extract_pages_main ascii_world (lit ''extract_pages.py'')
                         [lit ''a.pdf'', lit ''0'']) = 0"
    by (simp add: main_two_operands ascii_world_simps p0 o with_pdf_def sample_pdf_def pg
        print_or_fail_def a0)
  have r5: "extract_pages_main ascii_world (lit ''extract_pages.py'') [lit ''a.pdf'', lit ''0,5''] =
      \<lparr>stdout = [],
       stderr = [Json (JObj [(lit ''error'', JStr (lit ''ascii codec cannot encode character''))])],
       exit_code = 1,
       trace = [OpenPdf (lit ''a.pdf''), ExtractText 0, ExtractTables 0, ClosePdf]\<rparr>"
    by (simp add: main_two_operands ascii_world_simps p5 o with_pdf_def sample_pdf_def pg
        print_or_fail_def a5 at_exit_def written_def error_json_def)
  from r0 r5 show ?thesis
    by simp
qed




text \<open>
  C4. The tables of an extracted page are the tables that \<open>extract_tables()\<close> returned
  (none when it returned \<open>None\<close>), cell by cell: as many tables, as many rows in each
  table and as many cells in each row, in the same order; a missing cell has become the
  empty string, and a present cell its stripped text, which has no whitespace at either
  end and differs from the cell only by whitespace before and after it.
\<close>

theorem C4_table_cells_normalized:
  assumes page: "extract_page pg page_num = (ev, Inr r)"
    and raw_opt: "extract_tables pg = Inr raw_opt"
    and raw: "raw = (case raw_opt of None \<Rightarrow> [] | Some ts \<Rightarrow> ts)"
  shows "length (tables r) = length raw \<and>
         (\<forall>i<length raw.
            length (tables r ! i) = length (raw ! i) \<and>
            (\<forall>j<length (raw ! i).
               length (tables r ! i ! j) = length (raw ! i ! j) \<and>
               (\<forall>k<length (raw ! i ! j).
                  (raw ! i ! j ! k = None \<longrightarrow> tables r ! i ! j ! k = []) \<and>
                  (\<forall>s. raw ! i ! j ! k = Some s \<longrightarrow>
                     tables r ! i ! j ! k = strip s \<and>
                     trimmed (strip s) \<and>
                     (\<exists>l t. s = l @ strip s @ t \<and>
                        (\<forall>c\<in>set l. py_isspace c) \<and> (\<forall>c\<in>set t. py_isspace c))))))"
proof -
  from extract_page_tables [OF page raw_opt] raw
  have t: "tables r = map (map (map normalize_cell)) raw"
    by simp
  have cell: "(raw ! i ! j ! k = None \<longrightarrow> tables r ! i ! j ! k = []) \<and>
      (\<forall>s. raw ! i ! j ! k = Some s \<longrightarrow>
         tables r ! i ! j ! k = strip s \<and> trimmed (strip s) \<and>
         (\<exists>l t. s = l @ strip s @ t \<and>
            (\<forall>c\<in>set l. py_isspace c) \<and> (\<forall>c\<in>set t. py_isspace c)))"
    if "i < length raw" "j < length (raw ! i)" "k < length (raw ! i ! j)" for i j k
  proof -
    from that have "tables r ! i ! j ! k = normalize_cell (raw ! i ! j ! k)"
      by (simp add: t)
    then show ?thesis
      using strip_trimmed strip_surroundings
      by (auto simp: normalize_cell_None normalize_cell_Some)
  qed
  have row: "length (tables r ! i ! j) = length (raw ! i ! j)"
    if "i < length raw" "j < length (raw ! i)" for i j
    using that by (simp add: t)
  have tbl: "length (tables r ! i) = length (raw ! i)" if "i < length raw" for i
    using that by (simp add: t)
  have "length (tables r) = length raw"
    by (simp add: t)
  with tbl row cell show ?thesis
    by blast
qed

theorem C4_witness:
  "(\<exists>ev r. extract_page (sample_page (lit ''one'')) 0 = (ev, Inr r) \<and>
      length (tables r) = 1 \<and> length (tables r ! 0) = 2 \<and> length (tables r ! 0 ! 0) = 2 \<and>
      tables r ! 0 ! 0 ! 0 = lit ''a'' \<and> tables r ! 0 ! 0 ! 1 = [])"
proof -
  let ?raw = "[[[Some (lit '' a ''), None], [Some [], Some (lit ''b'')]]]"
  obtain ev r where page: "extract_page (sample_page (lit ''one'')) 0 = (ev, Inr r)"
    by (simp add: extract_page_def sample_page_def)
  have raw_opt: "extract_tables (sample_page (lit ''one'')) = Inr (Some ?raw)"
    by (simp add: sample_page_def)
  have raw: "?raw = (case Some ?raw of None \<Rightarrow> [] | Some ts \<Rightarrow> ts)"
    by simp
  note c4 = C4_table_cells_normalized [OF page raw_opt raw]
  from c4 have n: "length (tables r) = 1"
    by simp
  from c4 have i0: "length (tables r ! 0) = 2"
    by simp
  from c4 have j0: "length (tables r ! 0 ! 0) = 2"
    by simp
  from c4 have "tables r ! 0 ! 0 ! 0 = strip (lit '' a '')"
    by simp
  then have k0: "tables r ! 0 ! 0 ! 0 = lit ''a''"
    by (simp add: run_simps)
  from c4 have k1: "tables r ! 0 ! 0 ! 1 = []"
    by simp
  from page n i0 j0 k0 k1 show ?thesis
    by blast
qed

text \<open>
  C5. Normalizing the tables is idempotent. Normalizing the normalized tables again (every
  cell now present) gives the same tables; and tables whose cells are all present and
  without whitespace at either end come out as they went in.
\<close>

theorem C5_normalization_idempotent:
  "normalize_tables (map (map (map Some)) (normalize_tables ts)) = normalize_tables ts \<and>
   ((\<forall>t\<in>set ts. \<forall>row\<in>set t. \<forall>c\<in>set row. \<exists>s. c = Some s \<and> trimmed s) \<longrightarrow>
    normalize_tables ts = map (map (map the)) ts)"
proof (intro conjI impI)
  show "normalize_tables (map (map (map Some)) (normalize_tables ts)) = normalize_tables ts"
    by (simp add: normalize_tables_map comp_def normalize_cell_idem)
next
  assume norm: "\<forall>t\<in>set ts. \<forall>row\<in>set t. \<forall>c\<in>set row. \<exists>s. c = Some s \<and> trimmed s"
  have "map (map (map normalize_cell)) ts = map (map (map the)) ts"
  proof (intro map_cong refl)
    fix t row c
    assume "t \<in> set ts" "row \<in> set t" "c \<in> set row"
    with norm obtain s where "c = Some s" "trimmed s"
      by blast
    then show "normalize_cell c = the c"
      by (simp add: normalize_cell_trimmed)
  qed
  then show "normalize_tables ts = map (map (map the)) ts"
    by (simp add: normalize_tables_map)
qed

theorem C5_witness:
  "normalize_tables [[[Some (lit '' a ''), None]]] = [[[lit ''a'', []]]] \<and>
   normalize_tables (map (map (map Some)) [[[lit ''a'', []]]]) = [[[lit ''a'', []]]] \<and>
   trimmed (lit ''a'') \<and> trimmed [] \<and>
   normalize_tables [[[Some (lit ''a''), Some []]]] = [[[lit ''a'', []]]]"
proof -
  have n: "normalize_tables [[[Some (lit '' a ''), None]]] = [[[lit ''a'', []]]]"
    by (simp add: normalize_tables_map normalize_cell_None normalize_cell_Some run_simps)
  from C5_normalization_idempotent [of "[[[Some (lit '' a ''), None]]]"]
  have "normalize_tables (map (map (map Some)) (normalize_tables [[[Some (lit '' a ''), None]]])) =
        normalize_tables [[[Some (lit '' a ''), None]]]"
    by (rule conjunct1)
  with n have twice: "normalize_tables (map (map (map Some)) [[[lit ''a'', []]]]) = [[[lit ''a'', []]]]"
    by simp
  have ta: "trimmed (lit ''a'')" and te: "trimmed []"
    by (simp_all add: trimmed_def lit_def py_isspace_def)
  then have "\<forall>t\<in>set [[[Some (lit ''a''), Some []]]]. \<forall>row\<in>set t. \<forall>c\<in>set row.
               \<exists>s. c = Some s \<and> trimmed s"
    by simp
  with C5_normalization_idempotent [of "[[[Some (lit ''a''), Some []]]]"]
  have "normalize_tables [[[Some (lit ''a''), Some []]]] =
        map (map (map the)) [[[Some (lit ''a''), Some []]]]"
    by blast
  then have same: "normalize_tables [[[Some (lit ''a''), Some []]]] = [[[lit ''a'', []]]]"
    by simp
  from n twice ta te same show ?thesis
    by blast
qed

text \<open>
  C6. When some entry of the comma-separated page list is no integer, the page extraction
  tool exits with code 1, prints nothing on standard output, and puts on the error stream
  the JSON object whose \<open>error\<close> is \<open>Invalid page numbers: \<close> followed by the page-list
  operand as it was given. The trace of the run is empty: no file is opened, nor touched
  in any other way.
\<close>

theorem C6_malformed_page_numbers:
  assumes "\<exists>p\<in>set (split 44 page_numbers_str). py_int (py w) (strip p) = None"
  shows "extract_pages_main w prog [pdf_path, page_numbers_str] =
           \<lparr>stdout = [],
            stderr = [Json (JObj [(lit ''error'',
                                   JStr (lit ''Invalid page numbers: '' @ page_numbers_str))])],
            exit_code = 1, trace = []\<rparr>"
proof -
  from assms have "parse_pages (py w) page_numbers_str = None"
    unfolding parse_pages_def by (rule parse_entries_None)
  then show ?thesis
    by (simp add: main_two_operands error_json_def)
qed

theorem C6_witness:
  "split 44 (lit ''a,b'') = [lit ''a'', lit ''b''] \<and>
   py_int (py sample_world) (strip (lit ''a'')) = None \<and>
   extract_pages_main sample_world (lit ''extract_pages.py'') [lit ''a.pdf'', lit ''a,b''] =
     \<lparr>stdout = [],
      stderr = [Json (JObj [(lit ''error'', JStr (lit ''Invalid page numbers: a,b''))])],
      exit_code = 1, trace = []\<rparr>"
proof -
  have s: "split 44 (lit ''a,b'') = [lit ''a'', lit ''b'']"
    by (simp add: lit_def)
  have a: "py_int (py sample_world) (strip (lit ''a'')) = None"
    by (simp add: run_simps sample_world_def)
  from s a have "\<exists>p\<in>set (split 44 (lit ''a,b'')). py_int (py sample_world) (strip p) = None"
    by simp
  from C6_malformed_page_numbers [OF this, of "lit ''extract_pages.py''" "lit ''a.pdf''"]
  have "extract_pages_main sample_world (lit ''extract_pages.py'') [lit ''a.pdf'', lit ''a,b''] =
     \<lparr>stdout = [],
      stderr = [Json (JObj [(lit ''error'', JStr (lit ''Invalid page numbers: a,b''))])],
      exit_code = 1, trace = []\<rparr>"
    by (simp add: lit_def)
  with s a show ?thesis
    by blast
qed

text \<open>
  C7. When the path given to the metadata tool is not an existing regular file, the tool
  exits with code 1, prints nothing on standard output, and writes the line
  \<open>Error: file not found: \<close> followed by the path on the error stream. The only thing
  the run does outside is the \<open>isfile\<close> test: the path is never opened as a PDF.
\<close>

theorem C7_metadata_file_not_found:
  assumes "\<not> isfile w pdf_path"
  shows "get_metadata_main w prog [pdf_path] =
           \<lparr>stdout = [],
            stderr = [Plain (lit ''Error: file not found: '' @ pdf_path)],
            exit_code = 1, trace = [IsFile pdf_path]\<rparr> \<and>
         OpenPdf pdf_path \<notin> set (trace (get_metadata_main w prog [pdf_path]))"
  using assms by (simp add: metadata_one_operand)

theorem C7_witness:
  "\<not> isfile sample_world (lit ''none.pdf'') \<and>
   get_metadata_main sample_world (lit ''get_metadata.py'') [lit ''none.pdf''] =
     \<lparr>stdout = [],
      stderr = [Plain (lit ''Error: file not found: none.pdf'')],
      exit_code = 1, trace = [IsFile (lit ''none.pdf'')]\<rparr>"
proof -
  have h: "\<not> isfile sample_world (lit ''none.pdf'')"
    by (simp add: sample_world_def lit_def)
  from C7_metadata_file_not_found [OF h, of "lit ''get_metadata.py''"]
  have "get_metadata_main sample_world (lit ''get_metadata.py'') [lit ''none.pdf''] =
     \<lparr>stdout = [],
      stderr = [Plain (lit ''Error: file not found: none.pdf'')],
      exit_code = 1, trace = [IsFile (lit ''none.pdf'')]\<rparr>"
    by (simp add: lit_def)
  with h show ?thesis
    by blast
qed

text \<open>
  C8. A run of the metadata tool that exits with code 0 was given one path; the size of
  the file and the document were read for that path, and the document printed on standard
  output has \<open>fileSize\<close> equal to that size in bytes, \<open>pageCount\<close> equal to the number of
  pages of the opened document, and \<open>firstPageText\<close> a string in every case: the empty
  string when the document has no page, and otherwise the text of the first page, or the
  empty string when its extraction returned \<open>None\<close> (or the empty string itself).
\<close>

theorem C8_metadata_fields:
  assumes "exit_code (get_metadata_main w prog ops) = 0"
  shows "\<exists>pdf_path n doc first.
           ops = [pdf_path] \<and> getsize w pdf_path = Inr n \<and> pdf_open w pdf_path = Inr doc \<and>
           stdout (get_metadata_main w prog ops) =
             [Json (JObj [(lit ''pageCount'', JInt (int (length (pages doc)))),
                          (lit ''fileSize'', JInt (int n)),
                          (lit ''firstPageText'', JStr first)])] \<and>
           (pages doc = [] \<longrightarrow> first = []) \<and>
           (pages doc \<noteq> [] \<longrightarrow>
              (\<exists>t. extract_text (pages doc ! 0) = Inr t \<and>
                   first = (case t of None \<Rightarrow> [] | Some s \<Rightarrow> s)))"
proof -
  from assms have "length ops = 1"
    by (auto simp: get_metadata_main_def Let_def split: if_splits)
  then obtain pdf_path where ops: "ops = [pdf_path]"
    by (cases ops) auto
  from assms obtain ev m where m: "get_metadata w pdf_path = (ev, Inr m)"
    and run: "get_metadata_main w prog ops =
                print_or_fail w (metadata_json m)
                  (\<lambda>e. Plain (lit ''Error extracting metadata: '' @ e)) (IsFile pdf_path # ev)"
    unfolding ops metadata_one_operand
    by (auto split: if_splits prod.splits sum.splits)
  from assms have "stdout_print w (metadata_json m) = Printed"
    unfolding run by (simp only: print_or_fail_exit_0)
  then have out: "stdout (get_metadata_main w prog ops) = [Json (metadata_json m)]"
    unfolding run by (simp add: print_or_fail_Printed)
  from get_metadata_Inr [OF m] obtain n doc where
    "getsize w pdf_path = Inr n" "pdf_open w pdf_path = Inr doc"
    "pageCount m = length (pages doc)" "fileSize m = n"
    "pages doc = [] \<longrightarrow> firstPageText m = []"
    "pages doc \<noteq> [] \<longrightarrow>
       (\<exists>t. extract_text (pages doc ! 0) = Inr t \<and>
            firstPageText m = (case t of None \<Rightarrow> [] | Some s \<Rightarrow> s))"
    by blast
  with ops out show ?thesis
    by (intro exI [of _ pdf_path] exI [of _ n] exI [of _ doc] exI [of _ "firstPageText m"])
       (simp add: metadata_json_def)
qed

theorem C8_witness:
  "exit_code (get_metadata_main sample_world (lit ''get_metadata.py'') [lit ''empty.pdf'']) = 0 \<and>
   stdout (get_metadata_main sample_world (lit ''get_metadata.py'') [lit ''empty.pdf'']) =
     [Json (JObj [(lit ''pageCount'', JInt 0), (lit ''fileSize'', JInt 7),
                  (lit ''firstPageText'', JStr [])])] \<and>
   exit_code (get_metadata_main sample_world (lit ''get_metadata.py'') [lit ''a.pdf'']) = 0 \<and>
   stdout (get_metadata_main sample_world (lit ''get_metadata.py'') [lit ''a.pdf'']) =
     [Json (JObj [(lit ''pageCount'', JInt 3), (lit ''fileSize'', JInt 1234),
                  (lit ''firstPageText'', JStr (lit ''one''))])]"
proof -
  let ?e = "get_metadata_main sample_world (lit ''get_metadata.py'') [lit ''empty.pdf'']"
  let ?a = "get_metadata_main sample_world (lit ''get_metadata.py'') [lit ''a.pdf'']"
  have e0: "exit_code ?e = 0"
    by (simp add: metadata_one_operand get_metadata_def with_pdf_def sample_world_def
        empty_pdf_def lit_def print_or_fail_def)
  have a0: "exit_code ?a = 0"
    by (simp add: metadata_one_operand get_metadata_def with_pdf_def sample_world_def
        sample_pdf_def sample_page_def lit_def print_or_fail_def)
  have es: "getsize sample_world (lit ''empty.pdf'') = Inr 7"
    and eo: "pdf_open sample_world (lit ''empty.pdf'') = Inr empty_pdf"
    and as: "getsize sample_world (lit ''a.pdf'') = Inr 1234"
    and ao: "pdf_open sample_world (lit ''a.pdf'') = Inr sample_pdf"
    by (simp_all add: sample_world_def lit_def)
  from C8_metadata_fields [OF e0] es eo
  have e: "stdout ?e =
     [Json (JObj [(lit ''pageCount'', JInt 0), (lit ''fileSize'', JInt 7),
                  (lit ''firstPageText'', JStr [])])]"
    by (auto simp: empty_pdf_def)
  from C8_metadata_fields [OF a0] as ao
  have a: "stdout ?a =
     [Json (JObj [(lit ''pageCount'', JInt 3), (lit ''fileSize'', JInt 1234),
                  (lit ''firstPageText'', JStr (lit ''one''))])]"
    by (auto simp: sample_pdf_def sample_page_def)
  from e0 e a0 a show ?thesis
    by blast
qed

text \<open>
  C9. The metadata tool given any number of operands other than one, and the page
  extraction tool given fewer than two, write their usage message on the error stream (a
  line of text naming the script, and a JSON error object) and exit with code 1; nothing
  is printed on standard output and the trace is empty, so no I/O was done. The page
  extraction tool does not reject more than two operands: it runs on the first two
  as if the others were not there.
\<close>

theorem C9_usage_errors:
  "(length ops \<noteq> 1 \<longrightarrow>
      get_metadata_main w prog ops =
        \<lparr>stdout = [], stderr = [Plain (lit ''Usage: '' @ prog @ lit '' <path_to_pdf>'')],
         exit_code = 1, trace = []\<rparr>) \<and>
   (length ops < 2 \<longrightarrow>
      extract_pages_main w prog ops =
        \<lparr>stdout = [],
         stderr = [Json (JObj [(lit ''error'',
                                JStr (lit ''Usage: extract_pages.py <pdf_path> <page_numbers>''))])],
         exit_code = 1, trace = []\<rparr>) \<and>
   extract_pages_main w prog (pdf_path # page_numbers_str # extra) =
     extract_pages_main w prog [pdf_path, page_numbers_str]"
  by (simp add: get_metadata_main_def extract_pages_main_def error_json_def)

theorem C9_witness:
  "get_metadata_main sample_world (lit ''get_metadata.py'') [lit ''a.pdf'', lit ''b.pdf''] =
     \<lparr>stdout = [], stderr = [Plain (lit ''Usage: get_metadata.py <path_to_pdf>'')],
      exit_code = 1, trace = []\<rparr> \<and>
   extract_pages_main sample_world (lit ''extract_pages.py'') [lit ''a.pdf''] =
     \<lparr>stdout = [],
      stderr = [Json (JObj [(lit ''error'',
                             JStr (lit ''Usage: extract_pages.py <pdf_path> <page_numbers>''))])],
      exit_code = 1, trace = []\<rparr>"
proof -
  from C9_usage_errors [of "[lit ''a.pdf'', lit ''b.pdf'']" sample_world "lit ''get_metadata.py''",
      THEN conjunct1]
  have m: "get_metadata_main sample_world (lit ''get_metadata.py'') [lit ''a.pdf'', lit ''b.pdf''] =
     \<lparr>stdout = [], stderr = [Plain (lit ''Usage: get_metadata.py <path_to_pdf>'')],
      exit_code = 1, trace = []\<rparr>"
    by (simp add: lit_def)
  from C9_usage_errors [of "[lit ''a.pdf'']" sample_world "lit ''extract_pages.py''",
      THEN conjunct2, THEN conjunct1]
  have e: "extract_pages_main sample_world (lit ''extract_pages.py'') [lit ''a.pdf''] =
     \<lparr>stdout = [],
      stderr = [Json (JObj [(lit ''error'',
                             JStr (lit ''Usage: extract_pages.py <pdf_path> <page_numbers>''))])],
      exit_code = 1, trace = []\<rparr>"
    by simp
  from m e show ?thesis
    by blast
qed

text \<open>
  C9, as it was stated, fails for the page extraction tool: three operands are not the
  documented two, and yet the run opens the file, extracts page 0 and exits with code 0,
  with nothing on the error stream.
\<close>

theorem C9_counterexample:
  "exit_code (extract_pages_main sample_world (lit ''extract_pages.py'')
                [lit ''a.pdf'', lit ''0'', lit ''extra'']) = 0 \<and>
   stderr (extract_pages_main sample_world (lit ''extract_pages.py'')
             [lit ''a.pdf'', lit ''0'', lit ''extra'']) = [] \<and>
   trace (extract_pages_main sample_world (lit ''extract_pages.py'')
            [lit ''a.pdf'', lit ''0'', lit ''extra'']) =
     [OpenPdf (lit ''a.pdf''), ExtractText 0, ExtractTables 0, ClosePdf]"
proof -
  have p: "parse_pages (py sample_world) (lit ''0'') = Some [0]"
    by (simp add: run_simps sample_world_def)
  have o: "pdf_open sample_world (lit ''a.pdf'') = Inr sample_pdf"
    by (simp add: sample_world_def)
  show ?thesis
    by (simp add: extract_pages_main_extra [where extra = "[lit ''extra'']"] main_two_operands
        p o with_pdf_def sample_pdf_def sample_page_def extract_page_def
        print_or_fail_Printed [OF sample_world_print])
qed

text \<open>
  C10. The \<open>pages\<close> array of a successful run of the page extraction tool is never empty.
  Splitting the page list at the commas gives at least one entry; an entry that is empty
  or all whitespace is no integer; so a page list that parses has at least one index, and
  a run that exits with code 0 has printed the object whose \<open>pages\<close> array has one
  element for each entry of the page list, hence at least one.
\<close>

theorem C10_pages_never_empty:
  "split 44 page_numbers_str \<noteq> [] \<and>
   ((\<forall>c\<in>set p. py_isspace c) \<longrightarrow> py_int ip (strip p) = None) \<and>
   (parse_pages ip page_numbers_str = Some req \<longrightarrow> req \<noteq> []) \<and>
   (exit_code (extract_pages_main w prog ops) = 0 \<longrightarrow>
      (\<exists>js. stdout (extract_pages_main w prog ops) = [Json (JObj [(lit ''pages'', JArr js)])] \<and>
            js \<noteq> [] \<and> length js = length (split 44 (ops ! 1))))"
proof (intro conjI impI)
  show "split 44 page_numbers_str \<noteq> []"
    by (rule split_nonempty)
  show "py_int ip (strip p) = None" if "\<forall>c\<in>set p. py_isspace c"
    using that by (rule py_int_all_space)
  show "req \<noteq> []" if "parse_pages ip page_numbers_str = Some req"
    using that by (rule parse_pages_nonempty)
  show "\<exists>js. stdout (extract_pages_main w prog ops) = [Json (JObj [(lit ''pages'', JArr js)])] \<and>
             js \<noteq> [] \<and> length js = length (split 44 (ops ! 1))"
    if ok: "exit_code (extract_pages_main w prog ops) = 0"
  proof -
    from ok obtain requested ev results where
      parse: "parse_pages (py w) (ops ! 1) = Some requested"
      and body: "with_pdf w (ops ! 0)
               (\<lambda>doc. extract_loop doc (int (length (pages doc))) requested []) = (ev, Inr results)"
      and run: "extract_pages_main w prog ops =
                  print_or_fail w (pages_json results) (\<lambda>e. Json (error_json e)) ev"
      by (auto simp: extract_pages_main_def Let_def
          split: if_splits option.splits prod.splits sum.splits)
    from ok have "stdout_print w (pages_json results) = Printed"
      unfolding run by (simp only: print_or_fail_exit_0)
    then have out: "stdout (extract_pages_main w prog ops) =
                      [Json (JObj [(lit ''pages'', JArr (map page_json results))])]"
      unfolding run by (simp add: print_or_fail_Printed pages_json_def)
    from parse have "length requested = length (split 44 (ops ! 1))"
      unfolding parse_pages_def by (simp add: parse_entries_Some)
    with with_pdf_loop_length [OF body] split_nonempty [of 44 "ops ! 1"]
    have "map page_json results \<noteq> []"
      and "length (map page_json results) = length (split 44 (ops ! 1))"
      by auto
    with out show ?thesis
      by blast
  qed
qed

theorem C10_witness:
  "py_int (py sample_world) (strip (lit ''  '')) = None \<and>
   parse_pages (py sample_world) (lit ''0, ,1'') = None \<and>
   exit_code (extract_pages_main sample_world (lit ''extract_pages.py'') [lit ''a.pdf'', lit ''5,7'']) = 0 \<and>
   (\<exists>js.
      stdout (extract_pages_main sample_world (lit ''extract_pages.py'') [lit ''a.pdf'', lit ''5,7'']) =
        [Json (JObj [(lit ''pages'', JArr js)])] \<and> js \<noteq> [] \<and> length js = 2)"
proof -
  let ?run = "extract_pages_main sample_world (lit ''extract_pages.py'') [lit ''a.pdf'', lit ''5,7'']"
  note c10 = C10_pages_never_empty [of "lit ''0, ,1''" "lit ''  ''" "py sample_world" "[]"
      sample_world "lit ''extract_pages.py''" "[lit ''a.pdf'', lit ''5,7'']"]
  have sp: "\<forall>c\<in>set (lit ''  ''). py_isspace c"
    by (simp add: lit_def py_isspace_def)
  with c10 have a: "py_int (py sample_world) (strip (lit ''  '')) = None"
    by blast
  have b: "parse_pages (py sample_world) (lit ''0, ,1'') = None"
    by (simp add: run_simps sample_world_def)
  have p: "parse_pages (py sample_world) (lit ''5,7'') = Some [5, 7]"
    by (simp add: run_simps sample_world_def)
  have o: "pdf_open sample_world (lit ''a.pdf'') = Inr sample_pdf"
    by (simp add: sample_world_def)
  have e: "exit_code ?run = 0"
    by (simp add: main_two_operands p o with_pdf_def sample_pdf_def
        print_or_fail_Printed [OF sample_world_print])
  have n: "length (split 44 ([lit ''a.pdf'', lit ''5,7''] ! 1)) = 2"
    by (simp add: lit_def)
  from c10 e have "\<exists>js. stdout ?run = [Json (JObj [(lit ''pages'', JArr js)])] \<and> js \<noteq> [] \<and>
                       length js = length (split 44 ([lit ''a.pdf'', lit ''5,7''] ! 1))"
    by blast
  then have "\<exists>js. stdout ?run = [Json (JObj [(lit ''pages'', JArr js)])] \<and> js \<noteq> [] \<and> length js = 2"
    by (simp only: n)
  with a b e show ?thesis
    by blast
qed

end
